theory Spec2Isabelle
  imports Main
begin

section \<open>JavaScript values\<close>

text \<open>
  The connector service works on untyped JSON (\<^verbatim>\<open>any\<close>): response envelopes, parameter
  maps, dynamic state. A value is \<^verbatim>\<open>undefined\<close>, \<^verbatim>\<open>null\<close>, a boolean, a number, a string,
  an array or an object. An object is the list of its properties in enumeration order;
  where a key is bound twice the first binding is the one in force. Numbers are integers
  here: the code only ever tests a number for truthiness.
\<close>

datatype jsval =
    JUndefined
  | JNull
  | JBool bool
  | JNum int
  | JStr string
  | JArr "jsval list"
  | JObj "(string \<times> jsval) list"

type_synonym props = "(string \<times> jsval) list"

text \<open>What \<^verbatim>\<open>if (v)\<close>, \<^verbatim>\<open>!v\<close>, \<^verbatim>\<open>v && w\<close> and \<^verbatim>\<open>v ? a : b\<close> test.\<close>

fun truthy :: "jsval \<Rightarrow> bool" where
  "truthy JUndefined = False"
| "truthy JNull = False"
| "truthy (JBool b) = b"
| "truthy (JNum n) = (n \<noteq> 0)"
| "truthy (JStr s) = (s \<noteq> [])"
| "truthy (JArr xs) = True"
| "truthy (JObj kvs) = True"

text \<open>Decimal rendering of an array index, as \<^verbatim>\<open>Object.keys\<close> yields it.\<close>

fun showNat :: "nat \<Rightarrow> string" where
  "showNat n =
     (if n < 10 then [''0123456789'' ! n]
      else showNat (n div 10) @ [''0123456789'' ! (n mod 10)])"

declare showNat.simps [simp del]

text \<open>
  \<^verbatim>\<open>Object.keys(v)\<close>: the own enumerable keys. Arrays and strings have their indices,
  booleans and numbers have none.
\<close>

fun ownKeys :: "jsval \<Rightarrow> string list" where
  "ownKeys (JObj kvs) = map fst kvs"
| "ownKeys (JArr xs) = map showNat [0..<length xs]"
| "ownKeys (JStr s) = map showNat [0..<length s]"
| "ownKeys v = []"

text \<open>
  Property read \<^verbatim>\<open>v.k\<close> / \<^verbatim>\<open>v[k]\<close> on a value that is neither \<^verbatim>\<open>undefined\<close> nor \<^verbatim>\<open>null\<close>
  (on those the read throws; every call site below tests for that first). Inherited
  methods are functions, which are no JSON values and are not modelled.
\<close>

fun getProp :: "jsval \<Rightarrow> string \<Rightarrow> jsval" where
  "getProp (JObj kvs) k = (case map_of kvs k of Some v \<Rightarrow> v | None \<Rightarrow> JUndefined)"
| "getProp (JArr xs) k =
     (if k = ''length'' then JNum (int (length xs))
      else case map_of (zip (map showNat [0..<length xs]) xs) k of
             Some v \<Rightarrow> v | None \<Rightarrow> JUndefined)"
| "getProp (JStr s) k =
     (if k = ''length'' then JNum (int (length s))
      else case map_of (zip (map showNat [0..<length s]) (map (\<lambda>c. JStr [c]) s)) k of
             Some v \<Rightarrow> v | None \<Rightarrow> JUndefined)"
| "getProp v k = JUndefined"

text \<open>Assignment \<^verbatim>\<open>o[k] = v\<close>: an existing key keeps its place, a new key goes last.\<close>

fun setProp :: "string \<Rightarrow> jsval \<Rightarrow> props \<Rightarrow> props" where
  "setProp k v [] = [(k, v)]"
| "setProp k v (p # ps) = (if fst p = k then (k, v) # ps else p # setProp k v ps)"

text \<open>Object spread \<^verbatim>\<open>{ ...base, ...v }\<close>: the own properties of \<open>v\<close> assigned onto \<open>base\<close>.\<close>

definition spread :: "props \<Rightarrow> jsval \<Rightarrow> props" where
  "spread base v = fold (\<lambda>k acc. setProp k (getProp v k) acc) (ownKeys v) base"

text \<open>\<^verbatim>\<open>s.split('/')\<close>: the pieces between separators; never an empty array.\<close>

fun split :: "char \<Rightarrow> string \<Rightarrow> string list" where
  "split sep [] = [[]]"
| "split sep (c # cs) =
     (if c = sep then [] # split sep cs
      else case split sep cs of
             w # ws \<Rightarrow> (c # w) # ws
           | [] \<Rightarrow> [[c]])"

text \<open>
  \<^verbatim>\<open>xs.splice(start, deleteCount)\<close>. The call removes elements from the array in place and
  its value is the array of the removed elements. The pair is (value of the call, array
  afterwards).
\<close>

definition splice :: "'a list \<Rightarrow> int \<Rightarrow> nat \<Rightarrow> 'a list \<times> 'a list" where
  "splice xs start deleteCount =
     (let n = length xs;
          s = (if start < 0 then nat (max (int n + start) 0) else min (nat start) n);
          d = min deleteCount (n - s)
      in (take d (drop s xs), take s xs @ drop (s + d) xs))"

text \<open>\<^verbatim>\<open>s.toLowerCase()\<close> on the letters the code compares against.\<close>

definition lowerChar :: "char \<Rightarrow> char" where
  "lowerChar c =
     (case map_of (zip ''ABCDEFGHIJKLMNOPQRSTUVWXYZ'' ''abcdefghijklmnopqrstuvwxyz'') c of
        Some d \<Rightarrow> d
      | None \<Rightarrow> c)"

definition toLowerCase :: "string \<Rightarrow> string" where
  "toLowerCase s = map lowerChar s"

section \<open>Helpers imported from the utilities package\<close>

text \<open>
  Modelled from the spec: \<^verbatim>\<open>isNullOrUndefined\<close> of the utilities package, which is not
  part of the sources at hand; the test its name says.
\<close>

definition isNullOrUndefined :: "jsval \<Rightarrow> bool" where
  "isNullOrUndefined v = (v = JUndefined \<or> v = JNull)"

text \<open>
  Modelled from the spec: \<^verbatim>\<open>equals\<close> of the utilities package, described as
  case-insensitive equality of two strings.
\<close>

definition equals :: "string \<Rightarrow> string \<Rightarrow> bool" where
  "equals x y = (toLowerCase x = toLowerCase y)"

text \<open>
  Modelled from the spec: \<^verbatim>\<open>getObjectPropertyValue\<close> of the utilities package, the path
  extractor. Starting at the root, each segment descends into the property of that
  name; as soon as the current value is \<^verbatim>\<open>undefined\<close> or \<^verbatim>\<open>null\<close> the walk stops with
  \<^verbatim>\<open>undefined\<close>. The empty path yields the root. It never throws.
\<close>

fun getObjectPropertyValue :: "jsval \<Rightarrow> string list \<Rightarrow> jsval" where
  "getObjectPropertyValue v [] = v"
| "getObjectPropertyValue v (p # ps) =
     (if isNullOrUndefined v then JUndefined
      else getObjectPropertyValue (getProp v p) ps)"

text \<open>
  Modelled from the spec: \<^verbatim>\<open>Types.Object\<close> of the parsers package, the \<^verbatim>\<open>"object"\<close> kind.
\<close>

definition Types_Object :: string where
  "Types_Object = ''object''"

text \<open>
  Modelled from the spec: \<^verbatim>\<open>getJSONValue\<close> of the utilities package, which the spec
  describes as yielding the element itself, as a plain JSON value. The elements here are
  JSON values already.
\<close>

definition getJSONValue :: "jsval \<Rightarrow> jsval" where
  "getJSONValue v = v"

text \<open>
  The remaining imported helpers are parameters of the model, since nothing at hand fixes
  what they compute: \<^verbatim>\<open>pathCombine\<close> and \<^verbatim>\<open>isArmResourceId\<close>, the header inspection
  \<^verbatim>\<open>getClientRequestIdFromHeaders\<close>, and how a template literal renders a value that is
  not a string (\<open>toStringValue\<close>); a string is inserted as it is.
\<close>

record helpers =
  pathCombine :: "string \<Rightarrow> jsval \<Rightarrow> string"
  isArmResourceId :: "string \<Rightarrow> bool"
  getClientRequestIdFromHeaders :: "jsval \<Rightarrow> string option"
  toStringValue :: "jsval \<Rightarrow> string"

definition templateString :: "helpers \<Rightarrow> jsval \<Rightarrow> string" where
  "templateString I v = (case v of JStr s \<Rightarrow> s | _ \<Rightarrow> toStringValue I v)"

text \<open>
  \<^verbatim>\<open>intl.formatMessage\<close> reads its template as an ICU message. A name in braces is a
  placeholder and is replaced by its value. An apostrophe in front of a brace opens
  literal text that runs to the next apostrophe, and the two apostrophes are dropped. So
  a template that writes its placeholder between apostrophes comes out with the name in
  braces and nothing substituted; the messages below are written as they come out. The
  template \<^verbatim>\<open>Error executing the api - {url}\<close> has no apostrophe and gets its URL.
\<close>

text \<open>The apostrophe, which a template literal keeps as it is.\<close>

definition sq :: string where
  "sq = [CHR 0x27]"

section \<open>Errors and promises\<close>

text \<open>
  What a \<^verbatim>\<open>throw\<close> or a rejected promise carries: a \<^verbatim>\<open>TypeError\<close> of the language (its
  message is the engine's; the wording here stands for it), the \<^verbatim>\<open>UnsupportedException\<close>
  and \<^verbatim>\<open>ConnectorServiceException\<close> of the utilities package (code, message, data, inner exception), or whatever value the
  transport throws.
\<close>

datatype ConnectorServiceErrorCode = API_EXECUTION_FAILED | API_EXECUTION_FAILED_WITH_ERROR

datatype thrown =
    Thrown jsval
  | TypeError string
  | UnsupportedException string
  | ConnectorServiceException ConnectorServiceErrorCode jsval jsval "thrown option"

text \<open>The value of \<^verbatim>\<open>ex && ex.message\<close> and of \<^verbatim>\<open>ex.message\<close> in a catch block.\<close>

fun exAndMessage :: "thrown \<Rightarrow> jsval" where
  "exAndMessage (Thrown v) = (if truthy v then getProp v ''message'' else v)"
| "exAndMessage (TypeError m) = JStr m"
| "exAndMessage (UnsupportedException m) = JStr m"
| "exAndMessage (ConnectorServiceException c m d i) = m"

text \<open>The settled state of the promise an \<^verbatim>\<open>async\<close> method returns.\<close>

datatype 'a promise = Resolved 'a | Rejected thrown

section \<open>The response normalizer\<close>

text \<open>
  \<^verbatim>\<open>_getErrorMessageFromConnectorResponse\<close>. Destructuring \<^verbatim>\<open>body\<close> throws when it is
  \<^verbatim>\<open>undefined\<close> or \<^verbatim>\<open>null\<close>. Both templates write their placeholders between apostrophes.
\<close>

definition getErrorMessageFromConnectorResponse ::
  "helpers \<Rightarrow> jsval \<Rightarrow> string \<Rightarrow> string option \<Rightarrow> thrown + jsval" where
  "getErrorMessageFromConnectorResponse I response defaultErrorMessage clientRequestId =
     (if isNullOrUndefined response then
        Inl (TypeError ''Cannot destructure property body of response as it is undefined.'')
      else
        let body = getProp response ''body'' in
        if isNullOrUndefined body then
          Inl (TypeError ''Cannot destructure property error of response.body as it is undefined.'')
        else
          let error = getProp body ''error'';
              message = getProp body ''message'';
              statusCode = getProp response ''statusCode'';
              errorMessage =
                (if statusCode \<noteq> JUndefined \<and> truthy message then
                   JStr ''Error code: {errorCode}, Message: {message}.''
                 else
                   let m = (if isNullOrUndefined error then JUndefined
                            else getProp error ''message'')
                   in if isNullOrUndefined m then JStr defaultErrorMessage else m)
          in Inr (case clientRequestId of
                    None \<Rightarrow> errorMessage
                  | Some rid \<Rightarrow>
                      if rid = [] then errorMessage
                      else JStr (templateString I errorMessage @ '' ''
                                 @ ''More diagnostic information: x-ms-client-request-id is ''
                                 @ ''{clientRequestId}.'')))"

text \<open>The envelope: \<^verbatim>\<open>responseJson.response ?? responseJson\<close>.\<close>

definition envelope :: "jsval \<Rightarrow> jsval" where
  "envelope responseJson =
     (let r = getProp responseJson ''response''
      in if isNullOrUndefined r then responseJson else r)"

text \<open>\<^verbatim>\<open>_getResponseFromDynamicApi\<close>.\<close>

definition getResponseFromDynamicApi :: "helpers \<Rightarrow> jsval \<Rightarrow> string \<Rightarrow> thrown + jsval" where
  "getResponseFromDynamicApi I responseJson requestUrl =
     (if isNullOrUndefined responseJson then
        Inl (TypeError ''Cannot read properties of undefined (reading response)'')
      else
        let connectorResponse = envelope responseJson in
        if getProp connectorResponse ''statusCode'' = JStr ''OK'' then
          Inr (getProp connectorResponse ''body'')
        else
          let clientRequestId =
                getClientRequestIdFromHeaders I (getProp connectorResponse ''headers'');
              defaultErrorMessage = ''Error executing the api - '' @ requestUrl
          in case getErrorMessageFromConnectorResponse I connectorResponse
                    defaultErrorMessage clientRequestId of
               Inl e \<Rightarrow> Inl e
             | Inr errorMessage \<Rightarrow>
                 Inl (ConnectorServiceException API_EXECUTION_FAILED_WITH_ERROR errorMessage
                        (JObj [(''connectorResponse'', connectorResponse)]) None))"

section \<open>The service options and the HTTP client\<close>

text \<open>
  A request as the HTTP client receives it. \<open>headers\<close> and \<open>content\<close> are \<open>None\<close> when the
  options object has no such key.
\<close>

record HttpOptions =
  uri :: string
  queryParameters :: props
  headers :: "jsval option"
  content :: "jsval option"

text \<open>
  What a call of the client does: it throws on the spot, or it returns a promise that
  is rejected, or one that is fulfilled with the response.
\<close>

datatype HttpResult = Throws thrown | Rejects thrown | Resolves jsval

record IHttpClient =
  get :: "HttpOptions \<Rightarrow> HttpResult"
  post :: "HttpOptions \<Rightarrow> HttpResult"
  put :: "HttpOptions \<Rightarrow> HttpResult"

datatype HttpMethod = GET | POST | PUT

record OperationInfo =
  connectorId :: string
  operationId :: string

record ApiHubServiceDetails =
  hub_apiVersion :: string
  hub_baseUrl :: string
  subscriptionId :: string
  resourceGroup :: string

text \<open>
  \<^verbatim>\<open>BaseConnectorServiceOptions\<close>, without the configuration, schema and values clients,
  which the methods below never touch.
\<close>

record BaseConnectorServiceOptions =
  apiVersion :: string
  baseUrl :: string
  httpClient :: IHttpClient
  clientSupportedOperations :: "OperationInfo list"
  apiHubServiceDetails :: ApiHubServiceDetails
  workflowReferenceId :: string

text \<open>The allow-list of \<^verbatim>\<open>constants.ts\<close>.\<close>

definition constants_clientSupportedOperations :: "OperationInfo list" where
  "constants_clientSupportedOperations =
     [\<lparr>connectorId = ''connectionProviders/localWorkflowOperation'', operationId = ''invokeWorkflow''\<rparr>,
      \<lparr>connectorId = ''connectionProviders/xmlOperations'', operationId = ''xmlValidation''\<rparr>,
      \<lparr>connectorId = ''connectionProviders/xmlOperations'', operationId = ''xmlTransform''\<rparr>,
      \<lparr>connectorId = ''connectionProviders/liquidOperations'', operationId = ''liquidJsonToJson''\<rparr>,
      \<lparr>connectorId = ''connectionProviders/liquidOperations'', operationId = ''liquidJsonToText''\<rparr>,
      \<lparr>connectorId = ''connectionProviders/liquidOperations'', operationId = ''liquidXmlToJson''\<rparr>,
      \<lparr>connectorId = ''connectionProviders/liquidOperations'', operationId = ''liquidXmlToText''\<rparr>,
      \<lparr>connectorId = ''connectionProviders/flatFileOperations'', operationId = ''flatFileDecoding''\<rparr>,
      \<lparr>connectorId = ''connectionProviders/flatFileOperations'', operationId = ''flatFileEncoding''\<rparr>,
      \<lparr>connectorId = ''connectionProviders/swiftOperations'', operationId = ''SwiftDecode''\<rparr>,
      \<lparr>connectorId = ''connectionProviders/swiftOperations'', operationId = ''SwiftEncode''\<rparr>]"

section \<open>The request router\<close>

text \<open>
  The exception both catch blocks of \<^verbatim>\<open>_executeAzureDynamicApi\<close> build from what they
  caught. The template of the fallback message writes its placeholder between
  apostrophes.
\<close>

definition executionFailed :: "helpers \<Rightarrow> props \<Rightarrow> string \<Rightarrow> thrown \<Rightarrow> thrown" where
  "executionFailed I parameters reqUri ex =
     ConnectorServiceException API_EXECUTION_FAILED
       (if truthy (exAndMessage ex) then exAndMessage ex
        else JStr ''Error executing the api {parameters}.'')
       (JObj [(''requestMethod'', getProp (JObj parameters) ''method''),
              (''uri'', JStr reqUri),
              (''inputPath'', getProp (JObj parameters) ''path'')])
       (Some ex)"

text \<open>
  \<^verbatim>\<open>return httpClient.m(options)\<close> inside \<^verbatim>\<open>try\<close>, with no \<^verbatim>\<open>await\<close>: the catch block sees
  what the call throws on the spot; the promise the call returns is handed to the
  caller as it is, fulfilled or rejected.
\<close>

definition returnInTry :: "helpers \<Rightarrow> props \<Rightarrow> string \<Rightarrow> HttpResult \<Rightarrow> jsval promise" where
  "returnInTry I parameters reqUri r =
     (case r of
        Throws ex \<Rightarrow> Rejected (executionFailed I parameters reqUri ex)
      | Rejects ex \<Rightarrow> Rejected ex
      | Resolves response \<Rightarrow> Resolved response)"

text \<open>
  \<^verbatim>\<open>_executeAzureDynamicApi\<close>. The result is the list of requests handed to the HTTP
  client, in order, and the settled promise.
\<close>

definition executeAzureDynamicApi ::
  "helpers \<Rightarrow> BaseConnectorServiceOptions \<Rightarrow> string \<Rightarrow> string \<Rightarrow> props \<Rightarrow> bool option
     \<Rightarrow> jsval \<Rightarrow> (HttpMethod \<times> HttpOptions) list \<times> jsval promise" where
  "executeAzureDynamicApi I opts connectionId connector parameters
       isManagedIdentityTypeConnection managedIdentityProperties =
     (let method = getProp (JObj parameters) ''method'';
          reqUri =
            (if isManagedIdentityTypeConnection = Some True then baseUrl opts @ ''/dynamicInvoke''
             else if isArmResourceId I connector then
               pathCombine I
                 (hub_baseUrl (apiHubServiceDetails opts) @ ''/'' @ connectionId @ ''/extensions/proxy'')
                 (getProp (JObj parameters) ''path'')
             else
               pathCombine I (baseUrl opts @ ''/'' @ connectionId @ ''/extensions/proxy'')
                 (getProp (JObj parameters) ''path''))
      in
      if isManagedIdentityTypeConnection = Some True then
        let request = JObj [(''method'', method),
                            (''path'', getProp (JObj parameters) ''path''),
                            (''body'', getProp (JObj parameters) ''body''),
                            (''queries'', getProp (JObj parameters) ''queries''),
                            (''headers'', getProp (JObj parameters) ''headers'')];
            call = \<lparr>uri = reqUri,
                    queryParameters =
                      [(''api-version'', JStr (hub_apiVersion (apiHubServiceDetails opts)))],
                    headers = None,
                    content = Some (JObj [(''request'', request),
                                          (''properties'', managedIdentityProperties)])\<rparr>
        in ([(POST, call)],
            case post (httpClient opts) call of
              Throws ex \<Rightarrow> Rejected (executionFailed I parameters reqUri ex)
            | Rejects ex \<Rightarrow> Rejected (executionFailed I parameters reqUri ex)
            | Resolves response \<Rightarrow>
                (case getResponseFromDynamicApi I response reqUri of
                   Inl ex \<Rightarrow> Rejected (executionFailed I parameters reqUri ex)
                 | Inr body \<Rightarrow> Resolved body))
      else
        let options = \<lparr>uri = reqUri,
                       queryParameters =
                         spread [(''api-version'', JStr (hub_apiVersion (apiHubServiceDetails opts)))]
                           (getProp (JObj parameters) ''queries''),
                       headers = Some (getProp (JObj parameters) ''headers''),
                       content = None\<rparr>;
            bodyContent = getProp (JObj parameters) ''body'';
            withBody = (if truthy bodyContent then options\<lparr>content := Some bodyContent\<rparr>
                        else options)
        in case method of
             JStr m \<Rightarrow>
               if toLowerCase m = ''get'' then
                 ([(GET, options)],
                  returnInTry I parameters reqUri (get (httpClient opts) options))
               else if toLowerCase m = ''post'' then
                 ([(POST, withBody)],
                  returnInTry I parameters reqUri (post (httpClient opts) withBody))
               else if toLowerCase m = ''put'' then
                 ([(PUT, withBody)],
                  returnInTry I parameters reqUri (put (httpClient opts) withBody))
               else
                 ([], Rejected (executionFailed I parameters reqUri
                        (UnsupportedException
                           (''Unsupported dynamic call connector method - '' @ sq @ m @ sq))))
           | JUndefined \<Rightarrow>
               ([], Rejected (executionFailed I parameters reqUri
                      (TypeError ''Cannot read properties of undefined (reading toLowerCase)'')))
           | JNull \<Rightarrow>
               ([], Rejected (executionFailed I parameters reqUri
                      (TypeError ''Cannot read properties of null (reading toLowerCase)'')))
           | _ \<Rightarrow>
               ([], Rejected (executionFailed I parameters reqUri
                      (TypeError ''method.toLowerCase is not a function''))))"

section \<open>The legacy dynamic resolver\<close>

record LegacyDynamicValuesExtension =
  value_collection :: "string option"
  value_path :: string
  value_title :: "string option"
  value_description :: "string option"
  value_selectable :: "string option"

record LegacyDynamicSchemaExtension =
  schema_value_path :: "string option"

record ListDynamicValue =
  val :: jsval
  displayName :: jsval
  description :: jsval
  disabled :: bool

text \<open>
  An optional string used as a condition, \<^verbatim>\<open>p ? p.split('/') : ...\<close>: it counts when it
  is there and not empty, and then it is split.
\<close>

definition isSet :: "string option \<Rightarrow> bool" where
  "isSet p = (case p of None \<Rightarrow> False | Some s \<Rightarrow> s \<noteq> [])"

definition segments :: "string option \<Rightarrow> string list option" where
  "segments p = (case p of None \<Rightarrow> None | Some s \<Rightarrow> if s = [] then None else Some (split CHR ''/'' s))"

text \<open>The callback of \<^verbatim>\<open>values.map\<close> in \<^verbatim>\<open>getLegacyDynamicValues\<close>.\<close>

definition toDynamicValue ::
  "helpers \<Rightarrow> LegacyDynamicValuesExtension \<Rightarrow> string option \<Rightarrow> jsval \<Rightarrow> ListDynamicValue" where
  "toDynamicValue I extension parameterArrayType property =
     (let valueAndName =
            (if isSet parameterArrayType \<and> parameterArrayType \<noteq> Some Types_Object then
               (getJSONValue property, getJSONValue property)
             else
               let v = getObjectPropertyValue property (split CHR ''/'' (value_path extension))
               in (v, case segments (value_title extension) of
                        Some ps \<Rightarrow> getObjectPropertyValue property ps
                      | None \<Rightarrow> v));
          descr = (case segments (value_description extension) of
                     Some ps \<Rightarrow> getObjectPropertyValue property ps
                   | None \<Rightarrow> JUndefined);
          isSelectable =
            (case segments (value_selectable extension) of
               Some ps \<Rightarrow>
                 let selectableValue = getObjectPropertyValue property ps
                 in if \<not> isNullOrUndefined selectableValue then selectableValue else JBool True
             | None \<Rightarrow> JBool True)
      in \<lparr>val = fst valueAndName, displayName = snd valueAndName, description = descr,
          disabled = (\<not> truthy isSelectable)\<rparr>)"

text \<open>
  What \<^verbatim>\<open>getLegacyDynamicValues\<close> hands back: the mapped values, or the response itself.
\<close>

datatype ValuesResult = DynamicValues "ListDynamicValue list" | RawResponse jsval

text \<open>The collection \<^verbatim>\<open>getLegacyDynamicValues\<close> looks at in a response.\<close>

definition valueCollection :: "LegacyDynamicValuesExtension \<Rightarrow> jsval \<Rightarrow> jsval" where
  "valueCollection extension response =
     getObjectPropertyValue response
       (case segments (value_collection extension) of Some ps \<Rightarrow> ps | None \<Rightarrow> [])"

definition getLegacyDynamicValues ::
  "helpers \<Rightarrow> BaseConnectorServiceOptions \<Rightarrow> string \<Rightarrow> string \<Rightarrow> props
     \<Rightarrow> LegacyDynamicValuesExtension \<Rightarrow> string option \<Rightarrow> bool option \<Rightarrow> jsval
     \<Rightarrow> ValuesResult promise" where
  "getLegacyDynamicValues I opts connectionId connector parameters extension parameterArrayType
       isManagedIdentityTypeConnection managedIdentityProperties =
     (case snd (executeAzureDynamicApi I opts connectionId connector parameters
                  isManagedIdentityTypeConnection managedIdentityProperties) of
        Rejected ex \<Rightarrow> Rejected ex
      | Resolved response \<Rightarrow>
          let values = valueCollection extension response in
          if truthy values \<and> truthy (getProp values ''length'') then
            (case values of
               JArr xs \<Rightarrow>
                 Resolved (DynamicValues (map (toDynamicValue I extension parameterArrayType) xs))
             | _ \<Rightarrow> Rejected (TypeError ''values.map is not a function''))
          else Resolved (RawResponse response))"

definition getLegacyDynamicSchema ::
  "helpers \<Rightarrow> BaseConnectorServiceOptions \<Rightarrow> string \<Rightarrow> string \<Rightarrow> props
     \<Rightarrow> LegacyDynamicSchemaExtension \<Rightarrow> bool option \<Rightarrow> jsval \<Rightarrow> jsval promise" where
  "getLegacyDynamicSchema I opts connectionId connector parameters extension
       isManagedIdentityTypeConnection managedIdentityProperties =
     (case snd (executeAzureDynamicApi I opts connectionId connector parameters
                  isManagedIdentityTypeConnection managedIdentityProperties) of
        Rejected ex \<Rightarrow> Rejected ex
      | Resolved response \<Rightarrow>
          if \<not> truthy response then Resolved JNull
          else
            (case segments (schema_value_path extension) of
               Some schemaPath \<Rightarrow>
                 let extracted =
                       getObjectPropertyValue response
                         (if schemaPath \<noteq> [] \<and> equals (last schemaPath) ''properties''
                          then fst (splice schemaPath (- 1) 1)
                          else schemaPath)
                 in Resolved (if isNullOrUndefined extracted then JNull else extracted)
             | None \<Rightarrow>
                 Resolved (JObj [(''properties'', response), (''type'', JStr Types_Object)])))"

section \<open>The allow-list and the invoke parameters\<close>

definition isClientSupportedOperation ::
  "BaseConnectorServiceOptions \<Rightarrow> string \<Rightarrow> string \<Rightarrow> bool" where
  "isClientSupportedOperation opts connector operation =
     list_ex (\<lambda>operationInfo. equals connector (connectorId operationInfo)
                              \<and> equals operation (operationId operationInfo))
       (clientSupportedOperations opts)"

text \<open>
  \<^verbatim>\<open>_getInvokeParameters\<close> copies the caller's object and assigns into the copy. To tell
  the copy from the original, objects that are written to live in a store: \<open>objects\<close>
  maps a reference to the properties of the object it points to, and the references
  below \<open>fresh\<close> are the ones in use.
\<close>

record store =
  objects :: "nat \<Rightarrow> props"
  fresh :: nat

text \<open>
  The \<^verbatim>\<open>for\<close> loop over \<^verbatim>\<open>Object.keys(additionalParameters)\<close>; destructuring an entry that
  is \<^verbatim>\<open>undefined\<close> or \<^verbatim>\<open>null\<close> throws.
\<close>

fun forParameterNames :: "jsval \<Rightarrow> string list \<Rightarrow> nat \<Rightarrow> store \<Rightarrow> store \<times> (thrown + unit)" where
  "forParameterNames additionalParameters [] invokeParameters s = (s, Inr ())"
| "forParameterNames additionalParameters (parameterName # rest) invokeParameters s =
     (let entry = getProp additionalParameters parameterName in
      if isNullOrUndefined entry then
        (s, Inl (TypeError ''Cannot destructure property value of entry as it is undefined.''))
      else
        let v = getProp entry ''value'' in
        forParameterNames additionalParameters rest invokeParameters
          (if v \<noteq> JUndefined then
             s\<lparr>objects := (objects s)(invokeParameters :=
                                         setProp parameterName v (objects s invokeParameters))\<rparr>
           else s))"

definition getInvokeParameters :: "store \<Rightarrow> nat \<Rightarrow> jsval \<Rightarrow> store \<times> (thrown + nat)" where
  "getInvokeParameters s parameters dynamicState =
     (let invokeParameters = fresh s;
          s1 = s\<lparr>objects := (objects s)(invokeParameters := objects s parameters),
                 fresh := Suc (fresh s)\<rparr>
      in
      if isNullOrUndefined dynamicState then
        (s1, Inl (TypeError ''Cannot read properties of undefined (reading parameters)''))
      else
        let additionalParameters = getProp dynamicState ''parameters'' in
        if truthy additionalParameters then
          (case forParameterNames additionalParameters (ownKeys additionalParameters)
                  invokeParameters s1 of
             (s2, Inl ex) \<Rightarrow> (s2, Inl ex)
           | (s2, Inr u) \<Rightarrow> (s2, Inr invokeParameters))
        else (s1, Inr invokeParameters))"


section \<open>A concrete service\<close>

text \<open>
  One instance of the parameters, for running the model: a path combiner that joins
  with a single slash, an ARM test on the \<^verbatim>\<open>/subscriptions/\<close> prefix, the
  \<^verbatim>\<open>x-ms-client-request-id\<close> header, and a client that answers every request the same
  way.
\<close>

definition sampleHelpers :: helpers where
  "sampleHelpers =
     \<lparr>pathCombine = (\<lambda>u p. u @ ''/'' @ (case p of JStr s \<Rightarrow> dropWhile (\<lambda>c. c = CHR ''/'') s
                                                   | _ \<Rightarrow> [])),
      isArmResourceId = (\<lambda>c. take 15 (toLowerCase c) = ''/subscriptions/''),
      getClientRequestIdFromHeaders =
        (\<lambda>h. case getProp h ''x-ms-client-request-id'' of JStr s \<Rightarrow> Some s | _ \<Rightarrow> None),
      toStringValue = (\<lambda>v. [])\<rparr>"

definition sampleClient :: "HttpResult \<Rightarrow> IHttpClient" where
  "sampleClient r = \<lparr>get = (\<lambda>options. r), post = (\<lambda>options. r), put = (\<lambda>options. r)\<rparr>"

definition sampleOptions :: "HttpResult \<Rightarrow> BaseConnectorServiceOptions" where
  "sampleOptions r =
     \<lparr>apiVersion = ''2018-11-01'',
      baseUrl = ''https://host/runtime'',
      httpClient = sampleClient r,
      clientSupportedOperations = constants_clientSupportedOperations,
      apiHubServiceDetails =
        \<lparr>hub_apiVersion = ''2018-07-01-preview'', hub_baseUrl = ''https://hub'',
         subscriptionId = ''sub'', resourceGroup = ''rg''\<rparr>,
      workflowReferenceId = ''ref''\<rparr>"

definition sampleParameters :: props where
  "sampleParameters = [(''method'', JStr ''get''), (''path'', JStr ''/items'')]"

text \<open>A store with one object in use, and a dynamic state with three additional parameters.\<close>

definition sampleStore :: store where
  "sampleStore =
     \<lparr>objects = (\<lambda>a. if a = 0 then [(''a'', JNum 1), (''b'', JNum 2)] else []), fresh = 1\<rparr>"

definition sampleDynamicState :: jsval where
  "sampleDynamicState =
     JObj [(''parameters'',
            JObj [(''a'', JObj [(''value'', JNull)]),
                  (''b'', JObj [(''value'', JUndefined)]),
                  (''c'', JObj [(''value'', JNum 3)])])]"

text \<open>A response with two items, and an extension that reads them.\<close>

definition sampleItems :: jsval where
  "sampleItems =
     JObj [(''items'',
            JArr [JObj [(''id'', JNum 1), (''name'', JStr ''One''), (''ok'', JBool False)],
                  JObj [(''id'', JNum 2), (''name'', JStr ''Two'')]])]"

definition sampleExtension :: LegacyDynamicValuesExtension where
  "sampleExtension =
     \<lparr>value_collection = Some ''items'', value_path = ''id'', value_title = Some ''name'',
      value_description = None, value_selectable = Some ''ok''\<rparr>"

text \<open>A response that is an array of strings, and an extension without a collection path.\<close>

definition sampleNames :: jsval where
  "sampleNames = JArr [JStr ''a'', JStr ''b'']"

definition sampleBareExtension :: LegacyDynamicValuesExtension where
  "sampleBareExtension =
     \<lparr>value_collection = None, value_path = ''id'', value_title = None,
      value_description = None, value_selectable = None\<rparr>"

section \<open>Basic facts\<close>

lemma isNullOrUndefined_simps [simp]:
  "isNullOrUndefined JUndefined" "isNullOrUndefined JNull"
  "\<not> isNullOrUndefined (JBool b)" "\<not> isNullOrUndefined (JNum n)"
  "\<not> isNullOrUndefined (JStr t)" "\<not> isNullOrUndefined (JArr xs)"
  "\<not> isNullOrUndefined (JObj kvs)"
  by (simp_all add: isNullOrUndefined_def)

lemma ownKeys_falsy: "\<not> truthy v \<Longrightarrow> ownKeys v = []"
  by (cases v) auto

lemma map_of_setProp: "map_of (setProp k v ps) = (map_of ps)(k \<mapsto> v)"
  by (induction ps) auto

lemma envelope_not_null: "\<not> isNullOrUndefined raw \<Longrightarrow> \<not> isNullOrUndefined (envelope raw)"
  by (simp add: envelope_def Let_def)

section \<open>The response normalizer\<close>


text \<open>
  What the normalizer does with a raw response that is neither \<^verbatim>\<open>undefined\<close> nor \<^verbatim>\<open>null\<close>:
  the body of an envelope whose \<^verbatim>\<open>statusCode\<close> is \<^verbatim>\<open>"OK"\<close>, and for every other envelope that
  has a body the exception with its message.
\<close>

lemma getResponseFromDynamicApi_behaviour:
  assumes "\<not> isNullOrUndefined raw"
  shows "(getProp (envelope raw) ''statusCode'' = JStr ''OK'' \<longrightarrow>
            getResponseFromDynamicApi I raw url = Inr (getProp (envelope raw) ''body''))
       \<and> (getProp (envelope raw) ''statusCode'' \<noteq> JStr ''OK''
          \<and> \<not> isNullOrUndefined (getProp (envelope raw) ''body'') \<longrightarrow>
            getResponseFromDynamicApi I raw url =
              Inl (ConnectorServiceException API_EXECUTION_FAILED_WITH_ERROR
                     (let body = getProp (envelope raw) ''body'';
                          statusCode = getProp (envelope raw) ''statusCode'';
                          msg =
                            (if statusCode \<noteq> JUndefined \<and> truthy (getProp body ''message'') then
                               JStr ''Error code: {errorCode}, Message: {message}.''
                             else if \<not> isNullOrUndefined (getProp body ''error'')
                                     \<and> \<not> isNullOrUndefined
                                           (getProp (getProp body ''error'') ''message'') then
                               getProp (getProp body ''error'') ''message''
                             else JStr (''Error executing the api - '' @ url))
                      in case getClientRequestIdFromHeaders I (getProp (envelope raw) ''headers'') of
                           None \<Rightarrow> msg
                         | Some rid \<Rightarrow>
                             if rid = [] then msg
                             else JStr (templateString I msg @ '' ''
                                        @ ''More diagnostic information: x-ms-client-request-id is ''
                                        @ ''{clientRequestId}.''))
                     (JObj [(''connectorResponse'', envelope raw)]) None))"
  using assms envelope_not_null [OF assms]
  by (simp add: getResponseFromDynamicApi_def getErrorMessageFromConnectorResponse_def Let_def
           split: option.splits)

text \<open>
  Claim C4, at an input where the code departs from it. The envelope
  \<^verbatim>\<open>{statusCode: "BadRequest", body: {message: "boom"}}\<close> carries a status code and a message.
  The normalizer throws the \<^verbatim>\<open>ConnectorServiceException\<close> the claim describes, but its
  message is the template with the names of the placeholders left in braces: neither the
  status code nor the message of the envelope appears in it.
\<close>

theorem getResponseFromDynamicApi_message_not_substituted:
  "getResponseFromDynamicApi sampleHelpers
       (JObj [(''statusCode'', JStr ''BadRequest''), (''body'', JObj [(''message'', JStr ''boom'')])])
       ''https://x/y''
     = Inl (ConnectorServiceException API_EXECUTION_FAILED_WITH_ERROR
              (JStr ''Error code: {errorCode}, Message: {message}.'')
              (JObj [(''connectorResponse'',
                      JObj [(''statusCode'', JStr ''BadRequest''),
                            (''body'', JObj [(''message'', JStr ''boom'')])])])
              None)"
  by code_simp

section \<open>The request router\<close>



text \<open>
  On those routes a method that is a string other than get, post and put (in any case)
  sends nothing, and the \<^verbatim>\<open>UnsupportedException\<close> is wrapped.
\<close>

lemma executeAzureDynamicApi_unsupported:
  assumes "mi \<noteq> Some True"
      and "getProp (JObj parameters) ''method'' = JStr m"
      and "toLowerCase m \<notin> {''get'', ''post'', ''put''}"
  shows "executeAzureDynamicApi I opts connectionId connector parameters mi mp =
           ([], Rejected (executionFailed I parameters
                  (pathCombine I
                     ((if isArmResourceId I connector then hub_baseUrl (apiHubServiceDetails opts)
                       else baseUrl opts) @ ''/'' @ connectionId @ ''/extensions/proxy'')
                     (getProp (JObj parameters) ''path''))
                  (UnsupportedException
                     (''Unsupported dynamic call connector method - '' @ sq @ m @ sq))))"
  using assms by (simp add: executeAzureDynamicApi_def Let_def)

text \<open>
  Claim C7. With \<^verbatim>\<open>isManagedIdentityTypeConnection\<close> true, whatever the parameters say,
  exactly one request goes out: a POST to \<^verbatim>\<open><baseUrl>/dynamicInvoke\<close> with the query
  parameter \<^verbatim>\<open>api-version\<close> and the content \<^verbatim>\<open>{request: {method, path, body, queries,
  headers}, properties: managedIdentityProperties}\<close>, the five request fields read from the
  parameters map.
\<close>

theorem executeAzureDynamicApi_managedIdentity_dispatch:
  "fst (executeAzureDynamicApi I opts connectionId connector parameters (Some True) mp) =
     [(POST,
       \<lparr>uri = baseUrl opts @ ''/dynamicInvoke'',
        queryParameters = [(''api-version'', JStr (hub_apiVersion (apiHubServiceDetails opts)))],
        headers = None,
        content = Some (JObj [(''request'',
                               JObj [(''method'', getProp (JObj parameters) ''method''),
                                     (''path'', getProp (JObj parameters) ''path''),
                                     (''body'', getProp (JObj parameters) ''body''),
                                     (''queries'', getProp (JObj parameters) ''queries''),
                                     (''headers'', getProp (JObj parameters) ''headers'')]),
                              (''properties'', mp)])\<rparr>)]"
  by (simp add: executeAzureDynamicApi_def Let_def)

theorem executeAzureDynamicApi_managedIdentity_dispatch_witness:
  "fst (executeAzureDynamicApi sampleHelpers (sampleOptions (Resolves JNull)) ''conn'' ''connector''
          [(''method'', JStr ''get''), (''path'', JStr ''/foo'')] (Some True)
          (JObj [(''audience'', JStr ''https://vault'')]))
     = [(POST,
         \<lparr>uri = ''https://host/runtime/dynamicInvoke'',
          queryParameters = [(''api-version'', JStr ''2018-07-01-preview'')],
          headers = None,
          content = Some (JObj [(''request'',
                                 JObj [(''method'', JStr ''get''), (''path'', JStr ''/foo''),
                                       (''body'', JUndefined), (''queries'', JUndefined),
                                       (''headers'', JUndefined)]),
                                (''properties'', JObj [(''audience'', JStr ''https://vault'')])])\<rparr>)]"
  unfolding executeAzureDynamicApi_managedIdentity_dispatch
  by (simp add: sampleOptions_def)

text \<open>
  Claim C3, at the input where the code departs from it. On the generic route, with
  method \<^verbatim>\<open>get\<close>, the client's promise is rejected with a transport error; the router's
  promise is rejected with that very error, not with a \<^verbatim>\<open>ConnectorServiceException\<close>.
\<close>

theorem executeAzureDynamicApi_rejection_not_wrapped:
  "snd (executeAzureDynamicApi sampleHelpers
          (sampleOptions (Rejects (Thrown (JObj [(''message'', JStr ''socket hang up'')]))))
          ''conn'' ''connector'' [(''method'', JStr ''get''), (''path'', JStr ''/items'')]
          None JUndefined)
     = Rejected (Thrown (JObj [(''message'', JStr ''socket hang up'')]))"
  by code_simp

section \<open>The legacy dynamic resolver\<close>




text \<open>
  Claim C1, at an input where the code departs from it. The value path is
  \<^verbatim>\<open>a/properties\<close> and the response is \<^verbatim>\<open>{a: {x: 1}}\<close>. The path without its trailing segment
  leads to \<^verbatim>\<open>{x: 1}\<close>; the resolver, which extracts along what \<^verbatim>\<open>splice\<close> returns (the
  removed segment), yields \<^verbatim>\<open>null\<close>.
\<close>

theorem getLegacyDynamicSchema_trailing_properties:
  "getLegacyDynamicSchema sampleHelpers
       (sampleOptions (Resolves (JObj [(''a'', JObj [(''x'', JNum 1)])])))
       ''conn'' ''connector'' [(''method'', JStr ''get''), (''path'', JStr ''/items'')]
       \<lparr>schema_value_path = Some ''a/properties''\<rparr> None JUndefined
     = Resolved JNull
   \<and> getObjectPropertyValue (JObj [(''a'', JObj [(''x'', JNum 1)])])
       (butlast (split CHR ''/'' ''a/properties''))
     = JObj [(''x'', JNum 1)]"
  by code_simp

text \<open>
  Claim C10. Whenever the router resolves with a falsy response (\<^verbatim>\<open>undefined\<close>, \<^verbatim>\<open>null\<close>,
  \<^verbatim>\<open>false\<close>, \<^verbatim>\<open>0\<close> or the empty string), \<^verbatim>\<open>getLegacyDynamicSchema\<close> resolves with \<^verbatim>\<open>null\<close>,
  whatever the extension says.
\<close>

theorem getLegacyDynamicSchema_falsy:
  assumes "snd (executeAzureDynamicApi I opts connectionId connector parameters mi mp)
             = Resolved response"
      and "response \<in> {JUndefined, JNull, JBool False, JNum 0, JStr []}"
  shows "getLegacyDynamicSchema I opts connectionId connector parameters extension mi mp
           = Resolved JNull"
  using assms by (auto simp: getLegacyDynamicSchema_def)

theorem getLegacyDynamicSchema_falsy_witness:
  "snd (executeAzureDynamicApi sampleHelpers (sampleOptions (Resolves (JNum 0))) ''conn''
          ''connector'' sampleParameters None JUndefined) = Resolved (JNum 0)
   \<and> JNum 0 \<in> {JUndefined, JNull, JBool False, JNum 0, JStr []}
   \<and> getLegacyDynamicSchema sampleHelpers (sampleOptions (Resolves (JNum 0))) ''conn''
          ''connector'' sampleParameters \<lparr>schema_value_path = None\<rparr> None JUndefined
       = Resolved JNull"
proof -
  have a: "snd (executeAzureDynamicApi sampleHelpers (sampleOptions (Resolves (JNum 0))) ''conn''
          ''connector'' sampleParameters None JUndefined) = Resolved (JNum 0)"
    by code_simp
  have b: "JNum 0 \<in> {JUndefined, JNull, JBool False, JNum 0, JStr []}" by simp
  from getLegacyDynamicSchema_falsy [OF a b] a b show ?thesis by blast
qed

text \<open>
  Claim C5. Whenever the router resolves with a response in which the candidate
  collection (the value at \<^verbatim>\<open>value-collection\<close> when that is set, else the response
  itself) is absent or empty, \<^verbatim>\<open>getLegacyDynamicValues\<close> resolves with that response,
  unchanged.
\<close>

theorem getLegacyDynamicValues_passthrough:
  assumes "snd (executeAzureDynamicApi I opts connectionId connector parameters mi mp)
             = Resolved response"
      and "valueCollection extension response \<in> {JUndefined, JNull, JArr [], JStr [], JObj []}"
  shows "getLegacyDynamicValues I opts connectionId connector parameters extension pat mi mp
           = Resolved (RawResponse response)"
  using assms by (auto simp: getLegacyDynamicValues_def)

theorem getLegacyDynamicValues_passthrough_witness:
  "snd (executeAzureDynamicApi sampleHelpers (sampleOptions (Resolves (JObj [(''items'', JArr [])])))
          ''conn'' ''connector'' sampleParameters None JUndefined)
     = Resolved (JObj [(''items'', JArr [])])
   \<and> valueCollection
        \<lparr>value_collection = Some ''items'', value_path = ''id'', value_title = None,
         value_description = None, value_selectable = None\<rparr>
        (JObj [(''items'', JArr [])])
       \<in> {JUndefined, JNull, JArr [], JStr [], JObj []}
   \<and> getLegacyDynamicValues sampleHelpers (sampleOptions (Resolves (JObj [(''items'', JArr [])])))
          ''conn'' ''connector'' sampleParameters
          \<lparr>value_collection = Some ''items'', value_path = ''id'', value_title = None,
           value_description = None, value_selectable = None\<rparr>
          None None JUndefined
       = Resolved (RawResponse (JObj [(''items'', JArr [])]))"
proof -
  have a: "snd (executeAzureDynamicApi sampleHelpers
                  (sampleOptions (Resolves (JObj [(''items'', JArr [])])))
                  ''conn'' ''connector'' sampleParameters None JUndefined)
             = Resolved (JObj [(''items'', JArr [])])"
    by code_simp
  have b: "valueCollection
        \<lparr>value_collection = Some ''items'', value_path = ''id'', value_title = None,
         value_description = None, value_selectable = None\<rparr>
        (JObj [(''items'', JArr [])])
       \<in> {JUndefined, JNull, JArr [], JStr [], JObj []}"
    by (simp add: valueCollection_def segments_def)
  from getLegacyDynamicValues_passthrough [OF a b] a b show ?thesis by blast
qed

text \<open>
  Claim C6, as amended. Whenever the router resolves with a response whose candidate
  collection is a non-empty array, \<^verbatim>\<open>getLegacyDynamicValues\<close> resolves with as many dynamic
  values, the \<open>i\<close>-th made from the \<open>i\<close>-th element. When \<^verbatim>\<open>parameterArrayType\<close> is a string
  that is not empty and not \<^verbatim>\<open>"object"\<close>, value and display name are the element itself.
  Otherwise the value is extracted at \<^verbatim>\<open>value-path\<close> and the display name at \<^verbatim>\<open>value-title\<close>
  when that is set, else it is the value. The description is extracted at
  \<^verbatim>\<open>value-description\<close> when that is set, else \<^verbatim>\<open>undefined\<close>. \<open>disabled\<close> is the negation of
  what is extracted at \<^verbatim>\<open>value-selectable\<close> when that is set and the extraction is neither
  \<^verbatim>\<open>undefined\<close> nor \<^verbatim>\<open>null\<close>, else false.
\<close>

theorem getLegacyDynamicValues_maps:
  assumes "snd (executeAzureDynamicApi I opts connectionId connector parameters mi mp)
             = Resolved response"
      and "valueCollection extension response = JArr xs"
      and "xs \<noteq> []"
  shows "\<exists>ys. getLegacyDynamicValues I opts connectionId connector parameters extension pat mi mp
                = Resolved (DynamicValues ys)
            \<and> length ys = length xs
            \<and> (\<forall>i < length xs.
                  (if (\<exists>t. pat = Some t \<and> t \<noteq> [] \<and> t \<noteq> ''object'')
                   then val (ys ! i) = xs ! i \<and> displayName (ys ! i) = xs ! i
                   else val (ys ! i)
                          = getObjectPropertyValue (xs ! i) (split CHR ''/'' (value_path extension))
                        \<and> displayName (ys ! i)
                          = (case segments (value_title extension) of
                               Some ps \<Rightarrow> getObjectPropertyValue (xs ! i) ps
                             | None \<Rightarrow> val (ys ! i)))
                  \<and> description (ys ! i)
                      = (case segments (value_description extension) of
                           Some ps \<Rightarrow> getObjectPropertyValue (xs ! i) ps
                         | None \<Rightarrow> JUndefined)
                  \<and> disabled (ys ! i)
                      = (case segments (value_selectable extension) of
                           Some ps \<Rightarrow>
                             if isNullOrUndefined (getObjectPropertyValue (xs ! i) ps) then False
                             else \<not> truthy (getObjectPropertyValue (xs ! i) ps)
                         | None \<Rightarrow> False))"
proof -
  have cond: "isSet pat \<and> pat \<noteq> Some Types_Object
                \<longleftrightarrow> (\<exists>t. pat = Some t \<and> t \<noteq> [] \<and> t \<noteq> ''object'')"
    by (cases pat) (auto simp: isSet_def Types_Object_def)
  have res: "getLegacyDynamicValues I opts connectionId connector parameters extension pat mi mp
        = Resolved (DynamicValues (map (toDynamicValue I extension pat) xs))"
    using assms by (simp add: getLegacyDynamicValues_def)
  have each: "\<And>x. (if (\<exists>t. pat = Some t \<and> t \<noteq> [] \<and> t \<noteq> ''object'')
                   then val (toDynamicValue I extension pat x) = x
                        \<and> displayName (toDynamicValue I extension pat x) = x
                   else val (toDynamicValue I extension pat x)
                          = getObjectPropertyValue x (split CHR ''/'' (value_path extension))
                        \<and> displayName (toDynamicValue I extension pat x)
                          = (case segments (value_title extension) of
                               Some ps \<Rightarrow> getObjectPropertyValue x ps
                             | None \<Rightarrow> val (toDynamicValue I extension pat x)))
                  \<and> description (toDynamicValue I extension pat x)
                      = (case segments (value_description extension) of
                           Some ps \<Rightarrow> getObjectPropertyValue x ps
                         | None \<Rightarrow> JUndefined)
                  \<and> disabled (toDynamicValue I extension pat x)
                      = (case segments (value_selectable extension) of
                           Some ps \<Rightarrow>
                             if isNullOrUndefined (getObjectPropertyValue x ps) then False
                             else \<not> truthy (getObjectPropertyValue x ps)
                         | None \<Rightarrow> False)"
    unfolding cond [symmetric]
    by (simp add: toDynamicValue_def getJSONValue_def Let_def split: option.splits)
  show ?thesis
    unfolding res using each
    by (intro exI [of _ "map (toDynamicValue I extension pat) xs"]) (simp split: option.split)
qed

text \<open>
  Two runs on the generic route. With the array type \<^verbatim>\<open>"string"\<close> and the response
  \<^verbatim>\<open>["a", "b"]\<close>, value and display name are the elements. With no array type and a response
  that holds two items, the fields are extracted along the paths of the extension.
\<close>

theorem getLegacyDynamicValues_maps_witness:
  "snd (executeAzureDynamicApi sampleHelpers (sampleOptions (Resolves sampleNames))
          ''conn'' ''connector'' sampleParameters None JUndefined)
     = Resolved sampleNames
   \<and> valueCollection sampleBareExtension sampleNames = JArr [JStr ''a'', JStr ''b'']
   \<and> (\<exists>ys. getLegacyDynamicValues sampleHelpers (sampleOptions (Resolves sampleNames))
                ''conn'' ''connector'' sampleParameters sampleBareExtension (Some ''string'')
                None JUndefined
              = Resolved (DynamicValues ys)
          \<and> length ys = 2
          \<and> val (ys ! 0) = JStr ''a'' \<and> displayName (ys ! 0) = JStr ''a''
          \<and> description (ys ! 0) = JUndefined \<and> \<not> disabled (ys ! 0)
          \<and> val (ys ! 1) = JStr ''b'' \<and> displayName (ys ! 1) = JStr ''b''
          \<and> description (ys ! 1) = JUndefined \<and> \<not> disabled (ys ! 1))
   \<and> snd (executeAzureDynamicApi sampleHelpers (sampleOptions (Resolves sampleItems))
          ''conn'' ''connector'' sampleParameters None JUndefined)
     = Resolved sampleItems
   \<and> valueCollection sampleExtension sampleItems
       = JArr [JObj [(''id'', JNum 1), (''name'', JStr ''One''), (''ok'', JBool False)],
               JObj [(''id'', JNum 2), (''name'', JStr ''Two'')]]
   \<and> (\<exists>ys. getLegacyDynamicValues sampleHelpers (sampleOptions (Resolves sampleItems))
                ''conn'' ''connector'' sampleParameters sampleExtension None None JUndefined
              = Resolved (DynamicValues ys)
          \<and> length ys = 2
          \<and> val (ys ! 0) = JNum 1 \<and> displayName (ys ! 0) = JStr ''One''
          \<and> description (ys ! 0) = JUndefined \<and> disabled (ys ! 0)
          \<and> val (ys ! 1) = JNum 2 \<and> displayName (ys ! 1) = JStr ''Two''
          \<and> description (ys ! 1) = JUndefined \<and> \<not> disabled (ys ! 1))"
proof -
  let ?ns = "[JStr ''a'', JStr ''b'']"
  have na: "snd (executeAzureDynamicApi sampleHelpers (sampleOptions (Resolves sampleNames))
                  ''conn'' ''connector'' sampleParameters None JUndefined)
             = Resolved sampleNames"
    by code_simp
  have nb: "valueCollection sampleBareExtension sampleNames = JArr ?ns"
    by code_simp
  have nc: "?ns \<noteq> []" by simp
  have typed: "\<exists>t. Some ''string'' = Some t \<and> t \<noteq> [] \<and> t \<noteq> ''object''"
    by simp
  from getLegacyDynamicValues_maps [OF na nb nc, where pat = "Some ''string''"]
  obtain zs where nr: "getLegacyDynamicValues sampleHelpers (sampleOptions (Resolves sampleNames))
                ''conn'' ''connector'' sampleParameters sampleBareExtension (Some ''string'')
                None JUndefined
              = Resolved (DynamicValues zs)"
    and nl: "length zs = length ?ns"
    and ne: "\<forall>i < length ?ns.
                  (val (zs ! i) = ?ns ! i \<and> displayName (zs ! i) = ?ns ! i)
                  \<and> description (zs ! i)
                      = (case segments (value_description sampleBareExtension) of
                           Some ps \<Rightarrow> getObjectPropertyValue (?ns ! i) ps
                         | None \<Rightarrow> JUndefined)
                  \<and> disabled (zs ! i)
                      = (case segments (value_selectable sampleBareExtension) of
                           Some ps \<Rightarrow>
                             if isNullOrUndefined (getObjectPropertyValue (?ns ! i) ps) then False
                             else \<not> truthy (getObjectPropertyValue (?ns ! i) ps)
                         | None \<Rightarrow> False)"
    unfolding if_P [OF typed] by auto
  from ne have n0: "val (zs ! 0) = JStr ''a'' \<and> displayName (zs ! 0) = JStr ''a''
          \<and> description (zs ! 0) = JUndefined \<and> \<not> disabled (zs ! 0)"
    by (simp add: sampleBareExtension_def segments_def)
  from ne have n1: "val (zs ! 1) = JStr ''b'' \<and> displayName (zs ! 1) = JStr ''b''
          \<and> description (zs ! 1) = JUndefined \<and> \<not> disabled (zs ! 1)"
    by (simp add: sampleBareExtension_def segments_def)
  from nr nl n0 n1 have first:
    "\<exists>ys. getLegacyDynamicValues sampleHelpers (sampleOptions (Resolves sampleNames))
                ''conn'' ''connector'' sampleParameters sampleBareExtension (Some ''string'')
                None JUndefined
              = Resolved (DynamicValues ys)
          \<and> length ys = 2
          \<and> val (ys ! 0) = JStr ''a'' \<and> displayName (ys ! 0) = JStr ''a''
          \<and> description (ys ! 0) = JUndefined \<and> \<not> disabled (ys ! 0)
          \<and> val (ys ! 1) = JStr ''b'' \<and> displayName (ys ! 1) = JStr ''b''
          \<and> description (ys ! 1) = JUndefined \<and> \<not> disabled (ys ! 1)"
    by auto
  let ?xs = "[JObj [(''id'', JNum 1), (''name'', JStr ''One''), (''ok'', JBool False)],
              JObj [(''id'', JNum 2), (''name'', JStr ''Two'')]]"
  have a: "snd (executeAzureDynamicApi sampleHelpers (sampleOptions (Resolves sampleItems))
                  ''conn'' ''connector'' sampleParameters None JUndefined)
             = Resolved sampleItems"
    by code_simp
  have b: "valueCollection sampleExtension sampleItems = JArr ?xs"
    by code_simp
  have c: "?xs \<noteq> []" by simp
  from getLegacyDynamicValues_maps [OF a b c, where pat = None]
  obtain ys where r: "getLegacyDynamicValues sampleHelpers (sampleOptions (Resolves sampleItems))
                ''conn'' ''connector'' sampleParameters sampleExtension None None JUndefined
              = Resolved (DynamicValues ys)"
    and l: "length ys = length ?xs"
    and e: "\<forall>i < length ?xs.
                  (val (ys ! i)
                          = getObjectPropertyValue (?xs ! i) (split CHR ''/'' (value_path sampleExtension))
                        \<and> displayName (ys ! i)
                          = (case segments (value_title sampleExtension) of
                               Some ps \<Rightarrow> getObjectPropertyValue (?xs ! i) ps
                             | None \<Rightarrow> val (ys ! i)))
                  \<and> description (ys ! i)
                      = (case segments (value_description sampleExtension) of
                           Some ps \<Rightarrow> getObjectPropertyValue (?xs ! i) ps
                         | None \<Rightarrow> JUndefined)
                  \<and> disabled (ys ! i)
                      = (case segments (value_selectable sampleExtension) of
                           Some ps \<Rightarrow>
                             if isNullOrUndefined (getObjectPropertyValue (?xs ! i) ps) then False
                             else \<not> truthy (getObjectPropertyValue (?xs ! i) ps)
                         | None \<Rightarrow> False)"
    by auto
  from e have e0: "val (ys ! 0) = JNum 1 \<and> displayName (ys ! 0) = JStr ''One''
          \<and> description (ys ! 0) = JUndefined \<and> disabled (ys ! 0)"
    by (simp add: sampleExtension_def segments_def)
  from e have e1: "val (ys ! 1) = JNum 2 \<and> displayName (ys ! 1) = JStr ''Two''
          \<and> description (ys ! 1) = JUndefined \<and> \<not> disabled (ys ! 1)"
    by (simp add: sampleExtension_def segments_def)
  from r l e0 e1 have second:
    "\<exists>ys. getLegacyDynamicValues sampleHelpers (sampleOptions (Resolves sampleItems))
                ''conn'' ''connector'' sampleParameters sampleExtension None None JUndefined
              = Resolved (DynamicValues ys)
          \<and> length ys = 2
          \<and> val (ys ! 0) = JNum 1 \<and> displayName (ys ! 0) = JStr ''One''
          \<and> description (ys ! 0) = JUndefined \<and> disabled (ys ! 0)
          \<and> val (ys ! 1) = JNum 2 \<and> displayName (ys ! 1) = JStr ''Two''
          \<and> description (ys ! 1) = JUndefined \<and> \<not> disabled (ys ! 1)"
    by auto
  from na nb first a b second show ?thesis by blast
qed

text \<open>
  An input on which the resolver does otherwise than claim C6 says. The array type is
  the empty string, which is a given string and not \<^verbatim>\<open>"object"\<close>, and the response is
  \<^verbatim>\<open>["a"]\<close>. The condition \<^verbatim>\<open>parameterArrayType && ...\<close> fails on the empty string, so the
  value is what \<^verbatim>\<open>value-path\<close> finds in the element, \<^verbatim>\<open>undefined\<close>, and not the element.
\<close>

theorem getLegacyDynamicValues_empty_type_counterexample:
  "valueCollection sampleBareExtension (JArr [JStr ''a'']) = JArr [JStr ''a'']
   \<and> getLegacyDynamicValues sampleHelpers (sampleOptions (Resolves (JArr [JStr ''a''])))
       ''conn'' ''connector'' [(''method'', JStr ''get''), (''path'', JStr ''/items'')]
       sampleBareExtension (Some []) None JUndefined
     = Resolved (DynamicValues
         [\<lparr>val = JUndefined, displayName = JUndefined, description = JUndefined,
           disabled = False\<rparr>])"
  by code_simp

section \<open>The allow-list\<close>

text \<open>
  Claim C9. \<^verbatim>\<open>_isClientSupportedOperation\<close> is true exactly when some entry of the
  allow-list matches the connector id and the operation id, both at once, under \<open>equals\<close>;
  and inputs that differ from the given ones only in the case of letters give the same
  answer.
\<close>

theorem isClientSupportedOperation_iff:
  "(isClientSupportedOperation opts connector operation \<longleftrightarrow>
      (\<exists>info \<in> set (clientSupportedOperations opts).
          equals connector (connectorId info) \<and> equals operation (operationId info)))
   \<and> (\<forall>connector' operation'.
          equals connector' connector \<and> equals operation' operation \<longrightarrow>
          isClientSupportedOperation opts connector' operation'
            = isClientSupportedOperation opts connector operation)"
  by (simp add: isClientSupportedOperation_def list_ex_iff equals_def)

theorem isClientSupportedOperation_iff_witness:
  "equals ''CONNECTIONPROVIDERS/XMLOPERATIONS'' ''connectionProviders/xmlOperations''
   \<and> equals ''XmlValidation'' ''xmlValidation''
   \<and> isClientSupportedOperation (sampleOptions (Resolves JNull))
        ''connectionProviders/xmlOperations'' ''xmlValidation''
   \<and> isClientSupportedOperation (sampleOptions (Resolves JNull))
        ''CONNECTIONPROVIDERS/XMLOPERATIONS'' ''XmlValidation''"
proof -
  have a: "isClientSupportedOperation (sampleOptions (Resolves JNull))
             ''connectionProviders/xmlOperations'' ''xmlValidation''"
    by code_simp
  have b: "equals ''CONNECTIONPROVIDERS/XMLOPERATIONS'' ''connectionProviders/xmlOperations''"
    by code_simp
  have c: "equals ''XmlValidation'' ''xmlValidation''"
    by code_simp
  from isClientSupportedOperation_iff
         [of "sampleOptions (Resolves JNull)" "''connectionProviders/xmlOperations''"
             "''xmlValidation''"] a b c
  show ?thesis by blast
qed

section \<open>The invoke parameters\<close>

lemma forParameterNames_frame:
  "a \<noteq> r \<Longrightarrow> objects (fst (forParameterNames ap ks r s)) a = objects s a"
  by (induction ks arbitrary: s) (auto simp: Let_def)

lemma forParameterNames_result:
  "\<forall>k \<in> set ks. \<not> isNullOrUndefined (getProp ap k) \<Longrightarrow>
   snd (forParameterNames ap ks r s) = Inr ()
   \<and> (\<forall>k. map_of (objects (fst (forParameterNames ap ks r s)) r) k =
          (if k \<in> set ks \<and> getProp (getProp ap k) ''value'' \<noteq> JUndefined
           then Some (getProp (getProp ap k) ''value'')
           else map_of (objects s r) k))"
proof (induction ks arbitrary: s)
  case Nil
  then show ?case by simp
next
  case (Cons k ks)
  then show ?case
    by (auto simp: Let_def map_of_setProp)
qed

lemma getInvokeParameters_unfold:
  "getInvokeParameters s parameters dynamicState =
     (if isNullOrUndefined dynamicState then
        (s\<lparr>objects := (objects s)(fresh s := objects s parameters), fresh := Suc (fresh s)\<rparr>,
         Inl (TypeError ''Cannot read properties of undefined (reading parameters)''))
      else if truthy (getProp dynamicState ''parameters'') then
        (fst (forParameterNames (getProp dynamicState ''parameters'')
                (ownKeys (getProp dynamicState ''parameters'')) (fresh s)
                (s\<lparr>objects := (objects s)(fresh s := objects s parameters), fresh := Suc (fresh s)\<rparr>)),
         case snd (forParameterNames (getProp dynamicState ''parameters'')
                (ownKeys (getProp dynamicState ''parameters'')) (fresh s)
                (s\<lparr>objects := (objects s)(fresh s := objects s parameters), fresh := Suc (fresh s)\<rparr>)) of
           Inl ex \<Rightarrow> Inl ex | Inr u \<Rightarrow> Inr (fresh s))
      else
        (s\<lparr>objects := (objects s)(fresh s := objects s parameters), fresh := Suc (fresh s)\<rparr>,
         Inr (fresh s)))"
  by (simp add: getInvokeParameters_def Let_def split: prod.splits sum.splits)

lemma getInvokeParameters_frame:
  assumes "a < fresh s"
  shows "objects (fst (getInvokeParameters s parameters dynamicState)) a = objects s a"
proof -
  from assms have ne: "a \<noteq> fresh s" by simp
  show ?thesis
    unfolding getInvokeParameters_unfold
    using ne by (simp add: forParameterNames_frame)
qed

lemma getInvokeParameters_result:
  assumes ds: "\<not> isNullOrUndefined dynamicState"
      and wf: "\<forall>k \<in> set (ownKeys (getProp dynamicState ''parameters'')).
                \<not> isNullOrUndefined (getProp (getProp dynamicState ''parameters'') k)"
  shows "snd (getInvokeParameters s parameters dynamicState) = Inr (fresh s)"
    and "map_of (objects (fst (getInvokeParameters s parameters dynamicState)) (fresh s)) k =
           (if k \<in> set (ownKeys (getProp dynamicState ''parameters''))
               \<and> getProp (getProp (getProp dynamicState ''parameters'') k) ''value'' \<noteq> JUndefined
            then Some (getProp (getProp (getProp dynamicState ''parameters'') k) ''value'')
            else map_of (objects s parameters) k)"
proof -
  let ?ap = "getProp dynamicState ''parameters''"
  let ?s1 = "s\<lparr>objects := (objects s)(fresh s := objects s parameters), fresh := Suc (fresh s)\<rparr>"
  note loop = forParameterNames_result [OF wf, of "fresh s" ?s1]
  show "snd (getInvokeParameters s parameters dynamicState) = Inr (fresh s)"
    unfolding getInvokeParameters_unfold using ds loop by simp
  show "map_of (objects (fst (getInvokeParameters s parameters dynamicState)) (fresh s)) k =
           (if k \<in> set (ownKeys ?ap) \<and> getProp (getProp ?ap k) ''value'' \<noteq> JUndefined
            then Some (getProp (getProp ?ap k) ''value'')
            else map_of (objects s parameters) k)"
  proof (cases "truthy ?ap")
    case True
    then show ?thesis
      unfolding getInvokeParameters_unfold using ds loop by simp
  next
    case False
    then show ?thesis
      unfolding getInvokeParameters_unfold using ds by (simp add: ownKeys_falsy)
  qed
qed

text \<open>
  Claim C8. Let the caller's parameters be an object in use. \<^verbatim>\<open>_getInvokeParameters\<close>
  leaves every object in use as it was, the caller's parameters among them, whether it
  returns or throws. When the dynamic state is there and each of its additional
  parameters is an entry (neither \<^verbatim>\<open>undefined\<close> nor \<^verbatim>\<open>null\<close>), it returns a new object
  that binds a key to the entry's \<^verbatim>\<open>value\<close> when the dynamic state has an entry for the key
  whose value is not \<^verbatim>\<open>undefined\<close> (\<^verbatim>\<open>null\<close> included), and binds every other key as the
  caller's parameters do.
\<close>

theorem getInvokeParameters_merge:
  assumes "parameters < fresh s"
  shows "(\<forall>a < fresh s. objects (fst (getInvokeParameters s parameters dynamicState)) a = objects s a)
       \<and> (\<not> isNullOrUndefined dynamicState
          \<and> (\<forall>k \<in> set (ownKeys (getProp dynamicState ''parameters'')).
                \<not> isNullOrUndefined (getProp (getProp dynamicState ''parameters'') k)) \<longrightarrow>
          (\<exists>r. snd (getInvokeParameters s parameters dynamicState) = Inr r
              \<and> r \<noteq> parameters
              \<and> (\<forall>k. map_of (objects (fst (getInvokeParameters s parameters dynamicState)) r) k =
                   (if k \<in> set (ownKeys (getProp dynamicState ''parameters''))
                       \<and> getProp (getProp (getProp dynamicState ''parameters'') k) ''value''
                           \<noteq> JUndefined
                    then Some (getProp (getProp (getProp dynamicState ''parameters'') k) ''value'')
                    else map_of (objects s parameters) k))))"
proof (intro conjI impI allI)
  fix a assume "a < fresh s"
  then show "objects (fst (getInvokeParameters s parameters dynamicState)) a = objects s a"
    by (rule getInvokeParameters_frame)
next
  assume wf: "\<not> isNullOrUndefined dynamicState
          \<and> (\<forall>k \<in> set (ownKeys (getProp dynamicState ''parameters'')).
                \<not> isNullOrUndefined (getProp (getProp dynamicState ''parameters'') k))"
  then have ds: "\<not> isNullOrUndefined dynamicState"
    and en: "\<forall>k \<in> set (ownKeys (getProp dynamicState ''parameters'')).
                \<not> isNullOrUndefined (getProp (getProp dynamicState ''parameters'') k)"
    by blast+
  from assms have ne: "fresh s \<noteq> parameters" by simp
  show "\<exists>r. snd (getInvokeParameters s parameters dynamicState) = Inr r
              \<and> r \<noteq> parameters
              \<and> (\<forall>k. map_of (objects (fst (getInvokeParameters s parameters dynamicState)) r) k =
                   (if k \<in> set (ownKeys (getProp dynamicState ''parameters''))
                       \<and> getProp (getProp (getProp dynamicState ''parameters'') k) ''value''
                           \<noteq> JUndefined
                    then Some (getProp (getProp (getProp dynamicState ''parameters'') k) ''value'')
                    else map_of (objects s parameters) k))"
    using getInvokeParameters_result [OF ds en, of s parameters] ne
    by (intro exI [of _ "fresh s"]) blast
qed

theorem getInvokeParameters_merge_witness:
  "(0::nat) < fresh sampleStore
   \<and> \<not> isNullOrUndefined sampleDynamicState
   \<and> objects (fst (getInvokeParameters sampleStore 0 sampleDynamicState)) 0
       = [(''a'', JNum 1), (''b'', JNum 2)]
   \<and> snd (getInvokeParameters sampleStore 0 sampleDynamicState) = Inr 1
   \<and> map_of (objects (fst (getInvokeParameters sampleStore 0 sampleDynamicState)) 1) ''a''
       = Some JNull
   \<and> map_of (objects (fst (getInvokeParameters sampleStore 0 sampleDynamicState)) 1) ''b''
       = Some (JNum 2)
   \<and> map_of (objects (fst (getInvokeParameters sampleStore 0 sampleDynamicState)) 1) ''c''
       = Some (JNum 3)"
proof -
  have h: "(0::nat) < fresh sampleStore"
    by (simp add: sampleStore_def)
  have d: "\<not> isNullOrUndefined sampleDynamicState"
    by (simp add: sampleDynamicState_def)
  have w: "\<forall>k \<in> set (ownKeys (getProp sampleDynamicState ''parameters'')).
             \<not> isNullOrUndefined (getProp (getProp sampleDynamicState ''parameters'') k)"
    by (simp add: sampleDynamicState_def)
  note t = getInvokeParameters_merge [OF h, of sampleDynamicState]
  from t h have "objects (fst (getInvokeParameters sampleStore 0 sampleDynamicState)) 0
          = objects sampleStore 0"
    by blast
  then have f: "objects (fst (getInvokeParameters sampleStore 0 sampleDynamicState)) 0
          = [(''a'', JNum 1), (''b'', JNum 2)]"
    by (simp add: sampleStore_def)
  have r: "snd (getInvokeParameters sampleStore 0 sampleDynamicState) = Inr 1"
    by code_simp
  from t d w obtain r' where
        r': "snd (getInvokeParameters sampleStore 0 sampleDynamicState) = Inr r'"
    and m: "\<And>k. map_of (objects (fst (getInvokeParameters sampleStore 0 sampleDynamicState)) r') k =
                (if k \<in> set (ownKeys (getProp sampleDynamicState ''parameters''))
                    \<and> getProp (getProp (getProp sampleDynamicState ''parameters'') k) ''value''
                        \<noteq> JUndefined
                 then Some (getProp (getProp (getProp sampleDynamicState ''parameters'') k) ''value'')
                 else map_of (objects sampleStore 0) k)"
    by blast
  from r r' have one: "r' = 1" by simp
  have ma: "map_of (objects (fst (getInvokeParameters sampleStore 0 sampleDynamicState)) 1) ''a''
              = Some JNull"
    unfolding m [of "''a''", unfolded one] by (simp add: sampleDynamicState_def)
  have mb: "map_of (objects (fst (getInvokeParameters sampleStore 0 sampleDynamicState)) 1) ''b''
              = Some (JNum 2)"
    unfolding m [of "''b''", unfolded one] by (simp add: sampleDynamicState_def sampleStore_def)
  have mc: "map_of (objects (fst (getInvokeParameters sampleStore 0 sampleDynamicState)) 1) ''c''
              = Some (JNum 3)"
    unfolding m [of "''c''", unfolded one] by (simp add: sampleDynamicState_def)
  from h d f r ma mb mc show ?thesis by simp
qed

end
